theory Spec2Isabelle
  imports Complex_Main
begin

section \<open>The AIX CPU watch event source\<close>

text \<open>
  A shallow embedding of \<^verbatim>\<open>plugins/event_source/aix_cpu_watch.py\<close>: the vmstat sampler
  \<^verbatim>\<open>_compute_cpu_usage_from_vmstat\<close>, the SSH session class \<^verbatim>\<open>_SSHClient\<close> and the poll
  task and scheduler tick of \<^verbatim>\<open>AIXCPUWatch.run\<close>.

  Conventions of the embedding.
  \<^item> A Python \<^verbatim>\<open>str\<close> is a \<^typ>\<open>string\<close>; the character numbered \<open>n\<close> stands for the
    Unicode code point \<open>n\<close>, so the strings covered are those of code points below 256.
  \<^item> A Python \<^verbatim>\<open>float\<close> is a \<^typ>\<open>real\<close>: arithmetic is exact, there is no rounding of
    sums, no infinity and no NaN.
  \<^item> A raised exception is the \<open>Inl\<close> branch of a sum; \<^verbatim>\<open>except Exception\<close> catches the
    classes that derive from \<^verbatim>\<open>Exception\<close> and lets the others through.
  \<^item> Paramiko, the byte codec, the clock and the output queue are outside the source. What they answer
    is an argument of the model (a \<open>world\<close>), and what the code asks of them is returned
    as a list of calls.
\<close>

subsection \<open>Exceptions\<close>

datatype exn_class =
    ValueError
  | IndexError
  | KeyError
  | RuntimeError
  | Other_Exception string \<comment> \<open>any other class deriving from \<^verbatim>\<open>Exception\<close>, by name\<close>
  | Non_Exception string \<comment> \<open>a \<^verbatim>\<open>BaseException\<close> outside \<^verbatim>\<open>Exception\<close>, by name\<close>

datatype exn = Exn (cls: exn_class) (msg: string)

fun is_Exception :: "exn \<Rightarrow> bool" where
  "is_Exception (Exn (Non_Exception n) m) = False"
| "is_Exception (Exn c m) = True"

subsection \<open>Built-in string operations\<close>

definition isspace_chr :: "char \<Rightarrow> bool" where
  "isspace_chr c \<longleftrightarrow>
     c \<in> set [CHR 0x09, CHR 0x0A, CHR 0x0B, CHR 0x0C, CHR 0x0D, CHR 0x1C, CHR 0x1D,
               CHR 0x1E, CHR 0x1F, CHR 0x20, CHR 0x85, CHR 0xA0]"

definition isdecimal_chr :: "char \<Rightarrow> bool" where
  "isdecimal_chr c \<longleftrightarrow> c \<in> set ''0123456789''"

text \<open>
  \<^verbatim>\<open>str.isdigit\<close> accepts every character with a digit value: the ten decimal digits and,
  below 256, the superscripts two, three and one.
\<close>

definition isdigit_chr :: "char \<Rightarrow> bool" where
  "isdigit_chr c \<longleftrightarrow> isdecimal_chr c \<or> c \<in> set [CHR 0xB2, CHR 0xB3, CHR 0xB9]"

definition isdigit :: "string \<Rightarrow> bool" where
  "isdigit s \<longleftrightarrow> s \<noteq> [] \<and> list_all isdigit_chr s"

definition strip :: "string \<Rightarrow> string" where
  "strip s = rev (dropWhile isspace_chr (rev (dropWhile isspace_chr s)))"

text \<open>\<^verbatim>\<open>s.split()\<close>: the maximal runs of characters that are not whitespace.\<close>

fun split_from :: "string \<Rightarrow> string \<Rightarrow> string list" where
  "split_from cur [] = (if cur = [] then [] else [cur])"
| "split_from cur (c # cs) =
     (if isspace_chr c then (if cur = [] then split_from [] cs else cur # split_from [] cs)
      else split_from (cur @ [c]) cs)"

definition split :: "string \<Rightarrow> string list" where
  "split s = split_from [] s"

text \<open>
  \<^verbatim>\<open>s.splitlines()\<close>: a line ends at a line boundary, a carriage return followed by a
  line feed is one boundary, and there is no empty last line.
\<close>

definition is_linebreak :: "char \<Rightarrow> bool" where
  "is_linebreak c \<longleftrightarrow>
     c \<in> set [CHR 0x0A, CHR 0x0B, CHR 0x0C, CHR 0x0D, CHR 0x1C, CHR 0x1D, CHR 0x1E, CHR 0x85]"

fun splitlines_from :: "string \<Rightarrow> string \<Rightarrow> string list" where
  "splitlines_from cur [] = (if cur = [] then [] else [cur])"
| "splitlines_from cur [c] =
     (if is_linebreak c then [cur] else [cur @ [c]])"
| "splitlines_from cur (c # d # cs) =
     (if c = CHR 0x0D \<and> d = CHR 0x0A then cur # splitlines_from [] cs
      else if is_linebreak c then cur # splitlines_from [] (d # cs)
      else splitlines_from (cur @ [c]) (d # cs))"

definition splitlines :: "string \<Rightarrow> string list" where
  "splitlines s = splitlines_from [] s"

text \<open>\<^verbatim>\<open>repr\<close> of a string, as the f-string conversion \<^verbatim>\<open>!r\<close> gives it.\<close>

definition hexdigit :: "nat \<Rightarrow> char" where
  "hexdigit n = ''0123456789abcdef'' ! (n mod 16)"

definition isprintable_chr :: "char \<Rightarrow> bool" where
  "isprintable_chr c \<longleftrightarrow>
     (let n = (of_char c :: nat)
      in (0x20 \<le> n \<and> n < 0x7F) \<or> (0xA1 \<le> n \<and> n \<noteq> 0xAD))"

definition repr_chr :: "char \<Rightarrow> char \<Rightarrow> string" where
  "repr_chr quote c =
     (if c = quote \<or> c = CHR 0x5C then [CHR 0x5C, c]
      else if c = CHR 0x09 then [CHR 0x5C, CHR ''t'']
      else if c = CHR 0x0A then [CHR 0x5C, CHR ''n'']
      else if c = CHR 0x0D then [CHR 0x5C, CHR ''r'']
      else if isprintable_chr c then [c]
      else [CHR 0x5C, CHR ''x'', hexdigit (of_char c div 16), hexdigit (of_char c)])"

definition repr :: "string \<Rightarrow> string" where
  "repr s =
     (let quote = (if CHR 0x27 \<in> set s \<and> CHR 0x22 \<notin> set s then CHR 0x22 else CHR 0x27)
      in [quote] @ concat (map (repr_chr quote) s) @ [quote])"

subsection \<open>Floats\<close>

definition digit_val :: "char \<Rightarrow> nat" where
  "digit_val c = of_char c - 48"

definition int_of_digits :: "string \<Rightarrow> int" where
  "int_of_digits s = foldl (\<lambda>n c. 10 * n + int (digit_val c)) 0 s"

text \<open>The value of decimal digits with at most one point among them.\<close>

definition decimal_value :: "string \<Rightarrow> real" where
  "decimal_value t =
     (let whole = takeWhile (\<lambda>c. c \<noteq> CHR ''.'') t;
          frac = drop 1 (dropWhile (\<lambda>c. c \<noteq> CHR ''.'') t)
      in real_of_int (int_of_digits (whole @ frac)) / 10 ^ length frac)"

text \<open>
  \<^verbatim>\<open>float(t)\<close> on the strings the sampler passes to it: the tokens, which hold no
  whitespace, sign, exponent, underscore or letter once the filter has let them through,
  only digit characters and at most one point. Of these, \<^verbatim>\<open>float\<close> converts the ones whose
  digits are decimal digits and raises \<^verbatim>\<open>ValueError\<close> on the others.
\<close>

definition float_of_str :: "string \<Rightarrow> exn + real" where
  "float_of_str t =
     (let ds = remove1 (CHR ''.'') t
      in if ds \<noteq> [] \<and> list_all isdecimal_chr ds then Inr (decimal_value t)
         else Inl (Exn ValueError (''could not convert string to float: '' @ repr t)))"

text \<open>\<^verbatim>\<open>round(x, 2)\<close>: to the nearest hundredth, a tie going to the even one.\<close>

definition round2 :: "real \<Rightarrow> real" where
  "round2 x =
     (let y = x * 100; f = \<lfloor>y\<rfloor>
      in real_of_int (if y - real_of_int f < 1 / 2 then f
                      else if 1 / 2 < y - real_of_int f then f + 1
                      else if even f then f else f + 1) / 100)"

subsection \<open>The sampler\<close>

record cpu_usage =
  us :: real
  sy :: real
  idl :: real
  wa :: real
  usage :: real

text \<open>The filter of the list comprehension: \<^verbatim>\<open>t.replace('.', '', 1).isdigit()\<close>.\<close>

definition numeric_tok :: "string \<Rightarrow> bool" where
  "numeric_tok t \<longleftrightarrow> isdigit (remove1 (CHR ''.'') t)"

text \<open>\<^verbatim>\<open>map(float, xs)\<close>, consumed from the left: the first failure is the one raised.\<close>

fun map_float :: "string list \<Rightarrow> exn + real list" where
  "map_float [] = Inr []"
| "map_float (t # ts) =
     (case float_of_str t of
        Inl e \<Rightarrow> Inl e
      | Inr x \<Rightarrow> (case map_float ts of Inl e \<Rightarrow> Inl e | Inr xs \<Rightarrow> Inr (x # xs)))"

definition compute_cpu_usage_from_vmstat :: "string \<Rightarrow> exn + cpu_usage" where
  "compute_cpu_usage_from_vmstat line =
     (let toks = filter numeric_tok (split (strip line))
      in if length toks < 4
         then Inl (Exn ValueError (''Unexpected vmstat output: '' @ repr line))
         else (case map_float (drop (length toks - 4) toks) of
                 Inl e \<Rightarrow> Inl e
               | Inr [a, b, c, d] \<Rightarrow>
                   Inr \<lparr>us = a, sy = b, idl = c, wa = d, usage = a + b + d\<rparr>
               | Inr xs \<Rightarrow>
                   Inl (Exn ValueError ''not enough values to unpack (expected 4)'')))"

subsection \<open>The SSH session\<close>

text \<open>
  The object \<^verbatim>\<open>paramiko.SSHClient()\<close> creates. The flag records whether its \<^verbatim>\<open>connect\<close>
  has returned: a handle on which it has not is created but holds no transport.
\<close>

datatype handle = SSHClient (connected: bool)

datatype pkey = RSAKey string | ECDSAKey string

record ssh_client =
  host :: string
  username :: string
  port :: int
  key_path :: "string option"
  password :: "string option"
  timeout :: int
  client :: "handle option"

definition SSHClient_init ::
  "string \<Rightarrow> string \<Rightarrow> int \<Rightarrow> string option \<Rightarrow> string option \<Rightarrow> int \<Rightarrow> ssh_client" where
  "SSHClient_init h u p k pw t =
     \<lparr>host = h, username = u, port = p, key_path = k, password = pw, timeout = t,
      client = None\<rparr>"

text \<open>The keyword arguments of the call \<^verbatim>\<open>self._client.connect(...)\<close>.\<close>

record connect_args =
  arg_host :: string
  arg_port :: int
  arg_username :: string
  arg_password :: "string option"
  arg_pkey :: "pkey option"
  arg_look_for_keys :: bool
  arg_allow_agent :: bool
  arg_timeout :: int

text \<open>
  What the outside answers during one call of a method: \<open>None\<close> where a library call
  returns, \<open>Some e\<close> where it raises \<open>e\<close>. \<open>exec_read\<close> stands for \<^verbatim>\<open>exec_command\<close> and the
  two \<^verbatim>\<open>read()\<close> after it, and answers the bytes the command has written to its standard
  output and to its error stream. \<open>decode\<close> is the codec behind
  \<^verbatim>\<open>bytes.decode(errors="ignore")\<close>, which drops the bytes that are not UTF-8 text.
  \<open>utcnow\<close> is \<^verbatim>\<open>datetime.now(timezone.utc).isoformat()\<close>.
\<close>

text \<open>A byte string: the character numbered \<open>n\<close> stands for the byte \<open>n\<close>.\<close>

type_synonym bytes = "char list"

record world =
  load_rsa :: "string \<Rightarrow> exn option"
  load_ecdsa :: "string \<Rightarrow> exn option"
  ssh_connect :: "connect_args \<Rightarrow> exn option"
  exec_read :: "handle \<Rightarrow> string \<Rightarrow> int \<Rightarrow> exn + bytes \<times> bytes"
  decode :: "bytes \<Rightarrow> string"
  ssh_close :: "handle \<Rightarrow> exn option"
  utcnow :: string

datatype call =
    New_SSHClient
  | Load_RSA string
  | Load_ECDSA string
  | Connect connect_args
  | Exec handle string int
  | Close handle

text \<open>
  The key loading of \<^verbatim>\<open>connect\<close>: nothing when \<^verbatim>\<open>key_path\<close> is \<^verbatim>\<open>None\<close> or empty, else RSA
  and, when that raises, ECDSA.
\<close>

definition load_pkey :: "world \<Rightarrow> string option \<Rightarrow> (exn + pkey option) \<times> call list" where
  "load_pkey w kp =
     (case kp of
        None \<Rightarrow> (Inr None, [])
      | Some p \<Rightarrow>
          if p = [] then (Inr None, [])
          else (case load_rsa w p of
                  None \<Rightarrow> (Inr (Some (RSAKey p)), [Load_RSA p])
                | Some e \<Rightarrow>
                    if \<not> is_Exception e then (Inl e, [Load_RSA p])
                    else (case load_ecdsa w p of
                            None \<Rightarrow> (Inr (Some (ECDSAKey p)), [Load_RSA p, Load_ECDSA p])
                          | Some e' \<Rightarrow>
                              if \<not> is_Exception e' then (Inl e', [Load_RSA p, Load_ECDSA p])
                              else (Inr None, [Load_RSA p, Load_ECDSA p]))))"

definition connect_call :: "ssh_client \<Rightarrow> pkey option \<Rightarrow> connect_args" where
  "connect_call s pk =
     \<lparr>arg_host = host s, arg_port = port s, arg_username = username s,
      arg_password = (if pk = None then password s else None),
      arg_pkey = pk, arg_look_for_keys = False, arg_allow_agent = True,
      arg_timeout = timeout s\<rparr>"

definition connect :: "world \<Rightarrow> ssh_client \<Rightarrow> (exn + unit) \<times> ssh_client \<times> call list" where
  "connect w s =
     (if client s \<noteq> None then (Inr (), s, [])
      else
        (let s1 = s\<lparr>client := Some (SSHClient False)\<rparr>
         in case load_pkey w (key_path s) of
              (Inl e, cs) \<Rightarrow> (Inl e, s1, New_SSHClient # cs)
            | (Inr pk, cs) \<Rightarrow>
                (case ssh_connect w (connect_call s pk) of
                   Some e \<Rightarrow> (Inl e, s1, New_SSHClient # cs @ [Connect (connect_call s pk)])
                 | None \<Rightarrow>
                     (Inr (), s\<lparr>client := Some (SSHClient True)\<rparr>,
                      New_SSHClient # cs @ [Connect (connect_call s pk)]))))"

definition run :: "world \<Rightarrow> ssh_client \<Rightarrow> string \<Rightarrow> (exn + string) \<times> ssh_client \<times> call list" where
  "run w s cmd =
     (case (if client s = None then connect w s else (Inr (), s, [])) of
        (Inl e, s', cs) \<Rightarrow> (Inl e, s', cs)
      | (Inr u, s', cs) \<Rightarrow>
          (case client s' of
             None \<Rightarrow>
               (Inl (Exn (Other_Exception ''AttributeError'')
                       (CHR 0x27 # ''NoneType'' @ CHR 0x27 # '' object has no attribute ''
                          @ CHR 0x27 # ''exec_command'' @ [CHR 0x27])), s', cs)
           | Some h \<Rightarrow>
               (case exec_read w h cmd (timeout s') of
                  Inl e \<Rightarrow> (Inl e, s', cs @ [Exec h cmd (timeout s')])
                | Inr (stdout, stderr) \<Rightarrow>
                    (let out = decode w stdout; err = decode w stderr
                     in if err \<noteq> [] \<and> out = []
                        then (Inl (Exn RuntimeError
                                     (''Command error on '' @ host s' @ '': '' @ strip err)),
                              s', cs @ [Exec h cmd (timeout s')])
                        else (Inr out, s', cs @ [Exec h cmd (timeout s')])))))"

definition close :: "world \<Rightarrow> ssh_client \<Rightarrow> (exn + unit) \<times> ssh_client \<times> call list" where
  "close w s =
     (case client s of
        None \<Rightarrow> (Inr (), s\<lparr>client := None\<rparr>, [])
      | Some h \<Rightarrow>
          ((case ssh_close w h of None \<Rightarrow> Inr () | Some e \<Rightarrow> Inl e),
           s\<lparr>client := None\<rparr>, [Close h]))"

subsection \<open>Events\<close>

text \<open>An event is a dictionary; its items are kept in insertion order.\<close>

datatype json =
    JStr string
  | JNum real
  | JBool bool
  | JObj "(string \<times> json) list"

type_synonym event = "(string \<times> json) list"

definition success_event :: "string \<Rightarrow> string \<Rightarrow> cpu_usage \<Rightarrow> real \<Rightarrow> bool \<Rightarrow> event" where
  "success_event now h cpu thr crossed =
     [(''timestamp'', JStr now),
      (''host'', JStr h),
      (''cpu'', JObj [(''percent'', JNum (round2 (usage cpu))),
                      (''us'', JNum (us cpu)),
                      (''sy'', JNum (sy cpu)),
                      (''id'', JNum (idl cpu)),
                      (''wa'', JNum (wa cpu))]),
      (''threshold'', JNum thr),
      (''crossed'', JBool crossed),
      (''source'', JStr ''aix_cpu_watch'')]"

definition err_event :: "string \<Rightarrow> string \<Rightarrow> exn \<Rightarrow> event" where
  "err_event now h e =
     [(''timestamp'', JStr now),
      (''host'', JStr h),
      (''error'', JStr (msg e)),
      (''source'', JStr ''aix_cpu_watch''),
      (''severity'', JStr ''error'')]"

subsection \<open>The poll task\<close>

text \<open>An entry of the \<^verbatim>\<open>hosts\<close> list, and the arguments of the source after conversion.\<close>

record host_entry =
  h_host :: string
  h_username :: "string option"
  h_port :: "int option"
  h_key_path :: "string option"
  h_password :: "string option"
  h_timeout :: "int option"

record config =
  hosts :: "host_entry list"
  interval :: int
  threshold :: real
  emit_only_above :: bool
  sample_cmd :: string

text \<open>
  The body of the \<^verbatim>\<open>try\<close> statement of \<^verbatim>\<open>poll_one\<close>, in two parts. The first is the
  sampling: the command is run, the last line that is not blank is taken and parsed.
\<close>

definition poll_sample ::
  "config \<Rightarrow> world \<Rightarrow> ssh_client \<Rightarrow> (exn + cpu_usage) \<times> ssh_client" where
  "poll_sample cfg w cli =
     (case run w cli (sample_cmd cfg) of
        (Inl e, cli', cs) \<Rightarrow> (Inl e, cli')
      | (Inr out, cli', cs) \<Rightarrow>
          (let nonblank = filter (\<lambda>line. strip line \<noteq> []) (splitlines out)
           in if nonblank = [] then (Inl (Exn IndexError ''list index out of range''), cli')
              else
                (let lines = last nonblank
                 in if lines = [] then (Inl (Exn ValueError ''vmstat returned no data''), cli')
                    else (compute_cpu_usage_from_vmstat lines, cli'))))"

text \<open>
  The second is the evaluation against the threshold and the emission: the result is
  the list of events put on the queue, or the exception raised. \<^verbatim>\<open>queue.put\<close> on the
  unbounded queue of the rulebook engine returns.
\<close>

definition poll_try ::
  "config \<Rightarrow> world \<Rightarrow> string \<Rightarrow> ssh_client \<Rightarrow> (exn + event list) \<times> ssh_client" where
  "poll_try cfg w hostn cli =
     (case poll_sample cfg w cli of
        (Inl e, cli') \<Rightarrow> (Inl e, cli')
      | (Inr cpu, cli') \<Rightarrow>
          (let crossed = (usage cpu \<ge> threshold cfg)
           in if \<not> emit_only_above cfg \<or> crossed
              then (Inr [success_event (utcnow w) hostn cpu (threshold cfg) crossed], cli')
              else (Inr [], cli')))"

text \<open>
  \<^verbatim>\<open>poll_one\<close>: what it returns or raises, the sessions after it and the events it has
  put on the queue. The two lookups stand before the \<^verbatim>\<open>try\<close>.
\<close>

definition poll_one ::
  "config \<Rightarrow> world \<Rightarrow> (string \<rightharpoonup> ssh_client) \<Rightarrow> host_entry
     \<Rightarrow> (exn + unit) \<times> (string \<rightharpoonup> ssh_client) \<times> event list" where
  "poll_one cfg w clients h =
     (case clients (h_host h) of
        None \<Rightarrow> (Inl (Exn KeyError (repr (h_host h))), clients, [])
      | Some cli \<Rightarrow>
          (case poll_try cfg w (h_host h) cli of
             (Inr evs, cli') \<Rightarrow> (Inr (), clients(h_host h \<mapsto> cli'), evs)
           | (Inl e, cli') \<Rightarrow>
               if is_Exception e
               then (Inr (), clients(h_host h \<mapsto> cli'), [err_event (utcnow w) (h_host h) e])
               else (Inl e, clients(h_host h \<mapsto> cli'), [])))"

subsection \<open>The scheduler\<close>

text \<open>
  \<^verbatim>\<open>asyncio.gather\<close> over the hosts, taken in the order of the list: every task runs, and
  the first exception of a task, if any, is the one the caller sees. The answers of the
  outside are given per host name.
\<close>

fun gather ::
  "config \<Rightarrow> (string \<Rightarrow> world) \<Rightarrow> (string \<rightharpoonup> ssh_client) \<Rightarrow> host_entry list
     \<Rightarrow> (exn + unit) \<times> (string \<rightharpoonup> ssh_client) \<times> event list" where
  "gather cfg ws clients [] = (Inr (), clients, [])"
| "gather cfg ws clients (h # hs) =
     (case poll_one cfg (ws (h_host h)) clients h of
        (r, clients', evs) \<Rightarrow>
          (case gather cfg ws clients' hs of
             (r', clients'', evs') \<Rightarrow>
               ((case r of Inl e \<Rightarrow> Inl e | Inr u \<Rightarrow> r'), clients'', evs @ evs')))"

text \<open>The loop that prepares the SSH clients, with the defaults of the \<^verbatim>\<open>get\<close> calls.\<close>

definition make_client :: "host_entry \<Rightarrow> ssh_client" where
  "make_client h =
     SSHClient_init (h_host h)
       (case h_username h of None \<Rightarrow> ''root'' | Some u \<Rightarrow> u)
       (case h_port h of None \<Rightarrow> 22 | Some p \<Rightarrow> p)
       (h_key_path h) (h_password h)
       (case h_timeout h of None \<Rightarrow> 10 | Some t \<Rightarrow> t)"

fun prepare_clients :: "(string \<rightharpoonup> ssh_client) \<Rightarrow> host_entry list \<Rightarrow> (string \<rightharpoonup> ssh_client)" where
  "prepare_clients clients [] = clients"
| "prepare_clients clients (h # hs) = prepare_clients (clients(h_host h \<mapsto> make_client h)) hs"

text \<open>
  One turn of the \<^verbatim>\<open>while\<close> loop. \<open>start\<close> and \<open>finish\<close> are the two readings of the event
  loop's clock, before the tasks and after the join; the result is the argument of
  \<^verbatim>\<open>asyncio.sleep\<close>, or the exception that leaves the loop before the sleep.
\<close>

definition tick ::
  "config \<Rightarrow> (string \<Rightarrow> world) \<Rightarrow> real \<Rightarrow> real \<Rightarrow> (string \<rightharpoonup> ssh_client)
     \<Rightarrow> (exn + real) \<times> (string \<rightharpoonup> ssh_client) \<times> event list" where
  "tick cfg ws start finish clients =
     (case gather cfg ws clients (hosts cfg) of
        (Inl e, clients', evs) \<Rightarrow> (Inl e, clients', evs)
      | (Inr u, clients', evs) \<Rightarrow>
          (let elapsed = finish - start
           in (Inr (max 0 (real_of_int (interval cfg) - elapsed)), clients', evs)))"

subsection \<open>The two event layouts\<close>

text \<open>The layouts of the documentation's \<^verbatim>\<open>RETURN\<close> block, as tests on an event.\<close>

fun is_str :: "json \<Rightarrow> bool" where
  "is_str (JStr s) = True"
| "is_str j = False"

fun is_num :: "json \<Rightarrow> bool" where
  "is_num (JNum x) = True"
| "is_num j = False"

fun is_bool :: "json \<Rightarrow> bool" where
  "is_bool (JBool b) = True"
| "is_bool j = False"

definition has :: "(string \<times> json) list \<Rightarrow> string \<Rightarrow> (json \<Rightarrow> bool) \<Rightarrow> bool" where
  "has ev k P = (case map_of ev k of None \<Rightarrow> False | Some j \<Rightarrow> P j)"

definition two_decimals :: "json \<Rightarrow> bool" where
  "two_decimals j = (case j of JNum x \<Rightarrow> real_of_int \<lfloor>x * 100\<rfloor> = x * 100 | _ \<Rightarrow> False)"

definition cpu_layout :: "json \<Rightarrow> bool" where
  "cpu_layout j =
     (case j of
        JObj c \<Rightarrow>
          map fst c = [''percent'', ''us'', ''sy'', ''id'', ''wa''] \<and>
          has c ''percent'' two_decimals \<and> has c ''us'' is_num \<and> has c ''sy'' is_num \<and>
          has c ''id'' is_num \<and> has c ''wa'' is_num
      | _ \<Rightarrow> False)"

definition success_layout :: "event \<Rightarrow> bool" where
  "success_layout ev \<longleftrightarrow>
     map fst ev = [''timestamp'', ''host'', ''cpu'', ''threshold'', ''crossed'', ''source''] \<and>
     has ev ''timestamp'' is_str \<and> has ev ''host'' is_str \<and> has ev ''cpu'' cpu_layout \<and>
     has ev ''threshold'' is_num \<and> has ev ''crossed'' is_bool \<and>
     has ev ''source'' (\<lambda>j. j = JStr ''aix_cpu_watch'')"

definition error_layout :: "event \<Rightarrow> bool" where
  "error_layout ev \<longleftrightarrow>
     map fst ev = [''timestamp'', ''host'', ''error'', ''source'', ''severity''] \<and>
     has ev ''timestamp'' is_str \<and> has ev ''host'' is_str \<and> has ev ''error'' is_str \<and>
     has ev ''source'' (\<lambda>j. j = JStr ''aix_cpu_watch'') \<and>
     has ev ''severity'' (\<lambda>j. j = JStr ''error'')"

text \<open>The fields \<^verbatim>\<open>cpu.percent\<close>, \<^verbatim>\<open>threshold\<close> and \<^verbatim>\<open>crossed\<close> of an event, when it has them.\<close>

definition cpu_percent :: "event \<Rightarrow> real option" where
  "cpu_percent ev =
     (case map_of ev ''cpu'' of
        Some (JObj c) \<Rightarrow> (case map_of c ''percent'' of Some (JNum x) \<Rightarrow> Some x | _ \<Rightarrow> None)
      | _ \<Rightarrow> None)"

definition threshold_field :: "event \<Rightarrow> real option" where
  "threshold_field ev = (case map_of ev ''threshold'' of Some (JNum x) \<Rightarrow> Some x | _ \<Rightarrow> None)"

definition crossed_field :: "event \<Rightarrow> bool option" where
  "crossed_field ev = (case map_of ev ''crossed'' of Some (JBool b) \<Rightarrow> Some b | _ \<Rightarrow> None)"

subsection \<open>The reading of the specification\<close>

text \<open>
  A token that is a non-negative decimal number: decimal digits, at least one of them,
  with at most one point.
\<close>

definition decimal_number :: "string \<Rightarrow> bool" where
  "decimal_number t \<longleftrightarrow>
     (let ds = remove1 (CHR ''.'') t in ds \<noteq> [] \<and> list_all isdecimal_chr ds)"

subsection \<open>Scenarios\<close>

text \<open>
  The codec of the scenarios: UTF-8 with errors ignored, on the byte strings whose text
  stays below code point 256, as the strings of this theory do. A byte below 0x80 is its
  character; 0xC2 or 0xC3 followed by a continuation byte is the character 0x80 to 0xBF or
  0xC0 to 0xFF; any other byte starts no such sequence and is dropped.
\<close>

definition continuation :: "char \<Rightarrow> bool" where
  "continuation c \<longleftrightarrow> digit7 c \<and> \<not> digit6 c"

fun utf8_ignore :: "bytes \<Rightarrow> string" where
  "utf8_ignore [] = []"
| "utf8_ignore [b] = (if digit7 b then [] else [b])"
| "utf8_ignore (b # c # bs) =
     (if \<not> digit7 b then b # utf8_ignore (c # bs)
      else if b = CHR 0xC2 \<and> continuation c then c # utf8_ignore bs
      else if b = CHR 0xC3 \<and> continuation c
      then Char (digit0 c) (digit1 c) (digit2 c) (digit3 c) (digit4 c) (digit5 c) True True
             # utf8_ignore bs
      else utf8_ignore (c # bs))"

text \<open>
  A host that answers: keys load, the transport connects whatever is presented, and the
  command writes \<open>out\<close> and \<open>err\<close>. As in Paramiko, a command on a handle that holds no
  transport raises.
\<close>

definition no_transport :: exn where
  "no_transport =
     Exn (Other_Exception ''AttributeError'')
       (CHR 0x27 # ''NoneType'' @ CHR 0x27 # '' object has no attribute ''
          @ CHR 0x27 # ''open_session'' @ [CHR 0x27])"

definition world_up :: "bytes \<Rightarrow> bytes \<Rightarrow> world" where
  "world_up out err =
     \<lparr>load_rsa = (\<lambda>p. None), load_ecdsa = (\<lambda>p. None), ssh_connect = (\<lambda>a. None),
      exec_read = (\<lambda>h c t. if connected h then Inr (out, err) else Inl no_transport),
      decode = utf8_ignore,
      ssh_close = (\<lambda>h. None),
      utcnow = ''2024-05-01T12:00:00+00:00''\<rparr>"

text \<open>A host that cannot be reached: the transport raises on every connect.\<close>

definition unreachable :: exn where
  "unreachable =
     Exn (Other_Exception ''NoValidConnectionsError'')
       ''[Errno None] Unable to connect to port 22 on 10.0.0.1''"

definition world_down :: world where
  "world_down = (world_up [] [])\<lparr>ssh_connect := (\<lambda>a. Some unreachable)\<rparr>"

text \<open>
  A host that accepts the password and rejects every key, and a key file that is neither
  an RSA nor an ECDSA key.
\<close>

definition auth_failed :: exn where
  "auth_failed = Exn (Other_Exception ''AuthenticationException'') ''Authentication failed.''"

definition world_key_rejected :: world where
  "world_key_rejected =
     (world_up [] [])\<lparr>ssh_connect := (\<lambda>a. if arg_pkey a \<noteq> None then Some auth_failed else None)\<rparr>"

definition bad_key :: exn where
  "bad_key = Exn (Other_Exception ''SSHException'') ''not a valid RSA private key file''"

definition world_bad_key :: world where
  "world_bad_key =
     (world_up [] [])\<lparr>load_rsa := (\<lambda>p. Some bad_key), load_ecdsa := (\<lambda>p. Some bad_key)\<rparr>"

definition host1 :: host_entry where
  "host1 = \<lparr>h_host = ''h1'', h_username = None, h_port = None, h_key_path = None,
            h_password = None, h_timeout = None\<rparr>"

definition host1_key_pw :: host_entry where
  "host1_key_pw = host1\<lparr>h_key_path := Some ''/home/user/.ssh/id_rsa'', h_password := Some ''pw''\<rparr>"

definition cfg1 :: "bool \<Rightarrow> config" where
  "cfg1 b = \<lparr>hosts = [host1], interval = 10, threshold = 80, emit_only_above = b,
             sample_cmd = ''vmstat 1 2 | tail -1''\<rparr>"

section \<open>Properties\<close>

subsection \<open>The session\<close>

lemma connect_keeps:
  "host (fst (snd (connect w s))) = host s"
  "timeout (fst (snd (connect w s))) = timeout s"
  by (simp_all add: connect_def Let_def split: prod.splits sum.splits option.splits)

lemma connect_ok_client:
  "client s = None \<Longrightarrow> fst (connect w s) = Inr ()
     \<Longrightarrow> client (fst (snd (connect w s))) = Some (SSHClient True)"
  by (simp add: connect_def Let_def split: prod.splits sum.splits option.splits)

text \<open>
  Claim C9. \<^verbatim>\<open>close\<close> is idempotent and total: a second \<open>close\<close> after a first one, and a
  \<open>close\<close> of a session that never connected, raise nothing, call nothing and leave the
  session as a single \<open>close\<close> leaves it, without a client handle. The first \<open>close\<close> may
  be answered by any world, also one in which the library's own \<open>close\<close> raises.
\<close>

theorem close_idempotent:
  "close w' (fst (snd (close w s))) = (Inr (), fst (snd (close w s)), [])
   \<and> client (fst (snd (close w s))) = None
   \<and> close w (SSHClient_init h u p k pw t) = (Inr (), SSHClient_init h u p k pw t, [])"
  by (simp add: close_def SSHClient_init_def split: option.splits)

lemma utf8_ignore_examples:
  "utf8_ignore [] = []"
  "utf8_ignore ''boom'' = ''boom''"
  "utf8_ignore ''12 3 80 5'' = ''12 3 80 5''"
  "utf8_ignore [CHR 0xFF, CHR 0xFE] = []"
  "utf8_ignore [CHR 0xFF] = []"
  "utf8_ignore [CHR 0xC2, CHR 0xB2] = [CHR 0xB2]"
  by (simp_all add: continuation_def)

text \<open>
  Claim C6, as the code has it. Once the session is connected (it was, or the connect of
  this call succeeds) and the command has run and written its two streams, \<open>run\<close> decodes
  both with errors ignored; it raises the command error exactly when the decoded error
  stream is not empty and the decoded standard output is empty, and returns the decoded
  standard output unchanged in every other case.
\<close>

theorem run_command_error:
  assumes "client s = Some h \<or> (client s = None \<and> fst (connect w s) = Inr () \<and> h = SSHClient True)"
    and "exec_read w h cmd (timeout s) = Inr (stdout, stderr)"
  shows "fst (run w s cmd) =
           (if decode w stderr \<noteq> [] \<and> decode w stdout = []
            then Inl (Exn RuntimeError
                        (''Command error on '' @ host s @ '': '' @ strip (decode w stderr)))
            else Inr (decode w stdout))"
  using assms
  apply (elim disjE)
   apply (simp add: run_def Let_def)
  apply (cases "connect w s")
  subgoal for r s' cs
    using connect_keeps[of w s] connect_ok_client[of s w]
    by (auto simp: run_def Let_def split: sum.splits option.splits)
  done

theorem run_command_error_witness:
  "client (make_client host1) = None
   \<and> fst (connect (world_up [] ''boom'') (make_client host1)) = Inr ()
   \<and> exec_read (world_up [] ''boom'') (SSHClient True) ''vmstat'' (timeout (make_client host1))
       = Inr ([], ''boom'')
   \<and> fst (run (world_up [] ''boom'') (make_client host1) ''vmstat'')
       = Inl (Exn RuntimeError ''Command error on h1: boom'')"
proof -
  have a: "client (make_client host1) = None"
    by (simp add: make_client_def SSHClient_init_def)
  have b: "fst (connect (world_up [] ''boom'') (make_client host1)) = Inr ()"
    by (simp add: connect_def make_client_def SSHClient_init_def host1_def world_up_def
        load_pkey_def)
  have c: "exec_read (world_up [] ''boom'') (SSHClient True) ''vmstat''
             (timeout (make_client host1)) = Inr ([], ''boom'')"
    by (simp add: world_up_def)
  have d: "strip ''boom'' = ''boom''"
    by (simp add: strip_def isspace_chr_def)
  have e: "decode (world_up [] ''boom'') = utf8_ignore"
    by (simp add: world_up_def)
  from run_command_error
         [of "make_client host1" "SSHClient True" "world_up [] ''boom''" "''vmstat''"
             "[]" "''boom''"] a b c d e
  show ?thesis
    by (simp add: make_client_def SSHClient_init_def host1_def utf8_ignore_examples)
qed

text \<open>
  Claim C6 as stated, on what the command has written, fails both ways where bytes do
  not decode. A command that writes the bytes \<open>ff fe\<close> to its standard output and \<open>boom\<close> to
  its error stream has produced standard output, and \<open>run\<close> raises the command error. A
  command that writes nothing to its standard output and the byte \<open>ff\<close> to its error
  stream has produced error output only, and \<open>run\<close> returns the empty string.
\<close>

theorem undecodable_bytes_count_as_no_output:
  "exec_read (world_up [CHR 0xFF, CHR 0xFE] ''boom'') (SSHClient True) ''vmstat'' 10
     = Inr ([CHR 0xFF, CHR 0xFE], ''boom'')
   \<and> fst (run (world_up [CHR 0xFF, CHR 0xFE] ''boom'') (make_client host1) ''vmstat'')
       = Inl (Exn RuntimeError ''Command error on h1: boom'')
   \<and> exec_read (world_up [] [CHR 0xFF]) (SSHClient True) ''vmstat'' 10 = Inr ([], [CHR 0xFF])
   \<and> fst (run (world_up [] [CHR 0xFF]) (make_client host1) ''vmstat'') = Inr []"
proof -
  have d: "strip ''boom'' = ''boom''"
    by (simp add: strip_def isspace_chr_def)
  show ?thesis
    by (simp add: run_def connect_def load_pkey_def make_client_def SSHClient_init_def
        host1_def world_up_def utf8_ignore_examples d Let_def)
qed

subsection \<open>The poll task\<close>

lemma poll_sample_flag:
  "poll_sample (cfg\<lparr>emit_only_above := b\<rparr>) w cli = poll_sample cfg w cli"
  by (simp add: poll_sample_def)

lemma poll_one_on_failure:
  assumes "clients (h_host h) = Some cli" and "fst (poll_sample cfg w cli) = Inl e"
    and "is_Exception e"
  shows "poll_one cfg w clients h =
           (Inr (), clients(h_host h \<mapsto> snd (poll_sample cfg w cli)),
            [err_event (utcnow w) (h_host h) e])"
  using assms by (cases "poll_sample cfg w cli") (simp add: poll_one_def poll_try_def)

lemma poll_one_on_success:
  assumes "clients (h_host h) = Some cli" and "fst (poll_sample cfg w cli) = Inr cpu"
  shows "poll_one cfg w clients h =
           (Inr (), clients(h_host h \<mapsto> snd (poll_sample cfg w cli)),
            if \<not> emit_only_above cfg \<or> usage cpu \<ge> threshold cfg
            then [success_event (utcnow w) (h_host h) cpu (threshold cfg)
                    (usage cpu \<ge> threshold cfg)]
            else [])"
  using assms by (cases "poll_sample cfg w cli") (simp add: poll_one_def poll_try_def)

text \<open>
  Claim C1. When the sampling of a poll task fails with an exception \<open>e\<close> of a class
  deriving from \<^verbatim>\<open>Exception\<close> (a failed connect or authentication, a timeout, a command
  error, a parse error), the task puts exactly one event on the queue, the error event
  of \<open>e\<close>, whatever the flag \<^verbatim>\<open>emit_only_above\<close> is; it returns without raising, and the
  sessions of the other hosts are as they were.
\<close>

theorem poll_one_failure_emits_one_error:
  assumes "clients (h_host h) = Some cli"
    and "fst (poll_sample cfg w cli) = Inl e"
    and "is_Exception e"
  shows "fst (poll_one (cfg\<lparr>emit_only_above := b\<rparr>) w clients h) = Inr ()
       \<and> snd (snd (poll_one (cfg\<lparr>emit_only_above := b\<rparr>) w clients h))
           = [err_event (utcnow w) (h_host h) e]
       \<and> (\<forall>k. k \<noteq> h_host h \<longrightarrow>
             fst (snd (poll_one (cfg\<lparr>emit_only_above := b\<rparr>) w clients h)) k = clients k)"
proof -
  have "fst (poll_sample (cfg\<lparr>emit_only_above := b\<rparr>) w cli) = Inl e"
    using assms(2) by (simp add: poll_sample_flag)
  with poll_one_on_failure [of clients h cli "cfg\<lparr>emit_only_above := b\<rparr>" w e] assms
  show ?thesis
    by (simp add: poll_sample_flag)
qed

theorem poll_one_failure_emits_one_error_witness:
  "prepare_clients Map.empty [host1] (h_host host1) = Some (make_client host1)
   \<and> fst (poll_sample (cfg1 True) world_down (make_client host1)) = Inl unreachable
   \<and> is_Exception unreachable
   \<and> fst (poll_one ((cfg1 True)\<lparr>emit_only_above := True\<rparr>) world_down
            (prepare_clients Map.empty [host1]) host1) = Inr ()
   \<and> snd (snd (poll_one ((cfg1 True)\<lparr>emit_only_above := True\<rparr>) world_down
                 (prepare_clients Map.empty [host1]) host1))
       = [err_event (utcnow world_down) ''h1'' unreachable]"
proof -
  have a: "prepare_clients Map.empty [host1] (h_host host1) = Some (make_client host1)"
    by (simp add: host1_def)
  have b: "fst (poll_sample (cfg1 True) world_down (make_client host1)) = Inl unreachable"
    by (simp add: poll_sample_def run_def connect_def make_client_def SSHClient_init_def
        host1_def world_down_def world_up_def load_pkey_def cfg1_def)
  have c: "is_Exception unreachable"
    by (simp add: unreachable_def)
  from poll_one_failure_emits_one_error
         [of "prepare_clients Map.empty [host1]" host1 "make_client host1" "cfg1 True"
             world_down unreachable True, OF a b c] a b c
  show ?thesis by (simp add: host1_def)
qed

lemma crossed_field_success:
  "crossed_field (success_event now h cpu thr cr) = Some cr"
  by (simp add: crossed_field_def success_event_def)

lemma cpu_percent_success:
  "cpu_percent (success_event now h cpu thr cr) = Some (round2 (usage cpu))"
  by (simp add: cpu_percent_def success_event_def)

lemma threshold_field_success:
  "threshold_field (success_event now h cpu thr cr) = Some thr"
  by (simp add: threshold_field_def success_event_def)

text \<open>
  Claim C3. When the sampling succeeds with a reading, the task emits an event exactly
  when \<^verbatim>\<open>emit_only_above\<close> is off or the usage is at least the threshold; it emits at most
  one, whose \<open>crossed\<close> field is the truth of \<open>usage \<ge> threshold\<close>; and a usage equal to
  the threshold is emitted as crossed.
\<close>

theorem threshold_evaluation:
  assumes "clients (h_host h) = Some cli" and "fst (poll_sample cfg w cli) = Inr cpu"
  shows "(snd (snd (poll_one cfg w clients h)) \<noteq> []
            \<longleftrightarrow> (\<not> emit_only_above cfg \<or> usage cpu \<ge> threshold cfg))
       \<and> (\<forall>ev \<in> set (snd (snd (poll_one cfg w clients h))).
             crossed_field ev = Some (usage cpu \<ge> threshold cfg))
       \<and> length (snd (snd (poll_one cfg w clients h))) \<le> 1
       \<and> (usage cpu = threshold cfg \<longrightarrow>
             map crossed_field (snd (snd (poll_one cfg w clients h))) = [Some True])"
  using poll_one_on_success [of clients h cli cfg w cpu] assms
  by (simp add: crossed_field_success)

theorem threshold_evaluation_witness:
  "prepare_clients Map.empty [host1] (h_host host1) = Some (make_client host1)
   \<and> fst (poll_sample (cfg1 False) (world_up ''   12.0   3.0   80.0   5.0'' [])
            (make_client host1))
       = Inr \<lparr>us = 12, sy = 3, idl = 80, wa = 5, usage = 20\<rparr>
   \<and> map crossed_field
         (snd (snd (poll_one (cfg1 False) (world_up ''   12.0   3.0   80.0   5.0'' [])
                      (prepare_clients Map.empty [host1]) host1)))
       = [Some False]"
proof -
  have a: "prepare_clients Map.empty [host1] (h_host host1) = Some (make_client host1)"
    by (simp add: host1_def)
  have b: "fst (poll_sample (cfg1 False) (world_up ''   12.0   3.0   80.0   5.0'' [])
                  (make_client host1))
             = Inr \<lparr>us = 12, sy = 3, idl = 80, wa = 5, usage = 20\<rparr>"
    by code_simp
  have c: "\<not> emit_only_above (cfg1 False)" "threshold (cfg1 False) = 80"
    by (simp_all add: cfg1_def)
  let ?evs = "snd (snd (poll_one (cfg1 False) (world_up ''   12.0   3.0   80.0   5.0'' [])
                      (prepare_clients Map.empty [host1]) host1))"
  from threshold_evaluation
         [of "prepare_clients Map.empty [host1]" host1 "make_client host1" "cfg1 False"
             "world_up ''   12.0   3.0   80.0   5.0'' []"
             "\<lparr>us = 12, sy = 3, idl = 80, wa = 5, usage = 20\<rparr>", OF a b] c
  have ne: "?evs \<noteq> []" and cr: "\<forall>ev \<in> set ?evs. crossed_field ev = Some False"
    and le: "length ?evs \<le> 1"
    by simp_all
  from ne le obtain ev where "?evs = [ev]"
    by (cases ?evs) auto
  with cr a b show ?thesis by simp
qed

lemma prepared_host1:
  "prepare_clients Map.empty [host1] (h_host host1) = Some (make_client host1)"
  by simp

lemma success_event_layout: "success_layout (success_event now h cpu thr cr)"
  apply (simp add: success_layout_def success_event_def has_def cpu_layout_def two_decimals_def)
  apply (simp add: round2_def Let_def)
  done

lemma err_event_layout: "error_layout (err_event now h e)"
  by (simp add: error_layout_def err_event_def has_def)

lemma layouts_apart: "\<not> (success_layout ev \<and> error_layout ev)"
  by (auto simp: success_layout_def error_layout_def)

lemma layout_keys:
  "success_layout ev \<Longrightarrow> map_of ev ''error'' = None \<and> map_of ev ''severity'' = None"
  "error_layout ev \<Longrightarrow>
     map_of ev ''cpu'' = None \<and> map_of ev ''threshold'' = None \<and> map_of ev ''crossed'' = None"
  by (auto simp: success_layout_def error_layout_def map_of_eq_None_iff)

lemma poll_one_events:
  "snd (snd (poll_one cfg w clients h)) = [] \<or>
   (\<exists>cpu. snd (snd (poll_one cfg w clients h)) =
      [success_event (utcnow w) (h_host h) cpu (threshold cfg) (usage cpu \<ge> threshold cfg)]) \<or>
   (\<exists>e. snd (snd (poll_one cfg w clients h)) = [err_event (utcnow w) (h_host h) e])"
  by (auto simp: poll_one_def poll_try_def Let_def split: option.splits prod.splits sum.splits)

lemma round2_near: "\<bar>round2 x - x\<bar> \<le> 1 / 200"
proof -
  have "real_of_int \<lfloor>x * 100\<rfloor> \<le> x * 100" "x * 100 < real_of_int \<lfloor>x * 100\<rfloor> + 1"
    by linarith+
  then show ?thesis
    unfolding round2_def Let_def
    by (auto simp: field_simps)
qed

lemma round2_examples:
  "round2 79.999 = 80" "round2 (79999 / 1000) = 80" "round2 80 = 80" "round2 20 = 20"
  by (simp_all add: round2_def Let_def)

text \<open>
  Claim C4. Every event a poll task emits has one of the two layouts. A success event
  has exactly the keys timestamp, host, cpu, threshold, crossed and source, in \<open>cpu\<close>
  exactly percent, us, sy, id and wa, the percent being the usage rounded to two
  decimals (a whole number of hundredths, within half a hundredth of the usage), and the
  source \<open>aix_cpu_watch\<close>; it has no error and no severity. An error event has exactly the
  keys timestamp, host, error, source and severity, the severity being \<open>error\<close>; it has no
  cpu, threshold or crossed.
\<close>

theorem event_layouts:
  assumes "ev \<in> set (snd (snd (poll_one cfg w clients h)))"
  shows "((\<exists>cpu. ev = success_event (utcnow w) (h_host h) cpu (threshold cfg)
                      (usage cpu \<ge> threshold cfg)
                \<and> cpu_percent ev = Some (round2 (usage cpu))
                \<and> \<bar>round2 (usage cpu) - usage cpu\<bar> \<le> 1 / 200)
           \<and> success_layout ev
           \<and> map_of ev ''error'' = None \<and> map_of ev ''severity'' = None)
       \<or> ((\<exists>e. ev = err_event (utcnow w) (h_host h) e)
           \<and> error_layout ev
           \<and> map_of ev ''cpu'' = None \<and> map_of ev ''threshold'' = None
           \<and> map_of ev ''crossed'' = None)"
proof -
  from poll_one_events [of cfg w clients h] assms
  consider (ok) cpu where
      "ev = success_event (utcnow w) (h_host h) cpu (threshold cfg) (usage cpu \<ge> threshold cfg)"
    | (err) e where "ev = err_event (utcnow w) (h_host h) e"
    by auto
  then show ?thesis
  proof cases
    case ok
    have "success_layout ev" by (simp add: ok success_event_layout)
    with ok show ?thesis
      using layout_keys(1) [of ev] round2_near [of "usage cpu"]
      by (auto simp: cpu_percent_def success_event_def)
  next
    case err
    have "error_layout ev" by (simp add: err err_event_layout)
    with err show ?thesis
      using layout_keys(2) [of ev] by auto
  qed
qed

theorem event_layouts_witness:
  "success_event (utcnow (world_up ''   12.0   3.0   80.0   5.0'' [])) ''h1''
       \<lparr>us = 12, sy = 3, idl = 80, wa = 5, usage = 20\<rparr> 80 False
     \<in> set (snd (snd (poll_one (cfg1 False) (world_up ''   12.0   3.0   80.0   5.0'' [])
                         (prepare_clients Map.empty [host1]) host1)))
   \<and> success_layout
        (success_event (utcnow (world_up ''   12.0   3.0   80.0   5.0'' [])) ''h1''
           \<lparr>us = 12, sy = 3, idl = 80, wa = 5, usage = 20\<rparr> 80 False)
   \<and> cpu_percent
        (success_event (utcnow (world_up ''   12.0   3.0   80.0   5.0'' [])) ''h1''
           \<lparr>us = 12, sy = 3, idl = 80, wa = 5, usage = 20\<rparr> 80 False) = Some 20"
proof -
  let ?w = "world_up ''   12.0   3.0   80.0   5.0'' []"
  let ?cpu = "\<lparr>us = 12, sy = 3, idl = 80, wa = 5, usage = 20\<rparr>"
  let ?ev = "success_event (utcnow ?w) ''h1'' ?cpu 80 False"
  have b: "fst (poll_sample (cfg1 False) ?w (make_client host1)) = Inr ?cpu"
    by code_simp
  have c: "\<not> emit_only_above (cfg1 False)" "threshold (cfg1 False) = 80" "h_host host1 = ''h1''"
    by (simp_all add: cfg1_def host1_def)
  have m: "?ev \<in> set (snd (snd (poll_one (cfg1 False) ?w
                                   (prepare_clients Map.empty [host1]) host1)))"
    using poll_one_on_success
            [of "prepare_clients Map.empty [host1]" host1 "make_client host1" "cfg1 False"
                ?w ?cpu] prepared_host1 b c
    by simp
  from event_layouts [OF m] have "success_layout ?ev \<or> error_layout ?ev"
    by blast
  moreover have "\<not> error_layout ?ev"
    using layouts_apart [of ?ev] success_event_layout [of "utcnow ?w" "''h1''" ?cpu 80 False]
    by blast
  ultimately show ?thesis
    using m by (simp add: cpu_percent_success round2_examples)
qed

text \<open>
  Claim C10. The \<open>crossed\<close> field comes from the usage before rounding and \<open>cpu.percent\<close>
  from the usage after it. The line \<open>79.999 0 20.001 0\<close> under the threshold 80 gives an
  event with percent 80 and crossed false; the line \<open>80 0 20 0\<close> gives the same percent
  and threshold with crossed true. So \<open>crossed\<close> is not a function of the emitted percent
  and threshold.
\<close>

theorem crossed_from_unrounded_usage:
  "map (\<lambda>ev. (cpu_percent ev, threshold_field ev, crossed_field ev))
       (snd (snd (poll_one (cfg1 False) (world_up ''79.999 0 20.001 0'' [])
                    (prepare_clients Map.empty [host1]) host1)))
     = [(Some 80, Some 80, Some False)]
   \<and> map (\<lambda>ev. (cpu_percent ev, threshold_field ev, crossed_field ev))
       (snd (snd (poll_one (cfg1 False) (world_up ''80 0 20 0'' [])
                    (prepare_clients Map.empty [host1]) host1)))
     = [(Some 80, Some 80, Some True)]
   \<and> fst (poll_sample (cfg1 False) (world_up ''79.999 0 20.001 0'' []) (make_client host1))
     = Inr \<lparr>us = 79.999, sy = 0, idl = 20.001, wa = 0, usage = 79.999\<rparr>"
proof -
  have a: "fst (poll_sample (cfg1 False) (world_up ''79.999 0 20.001 0'' [])
                  (make_client host1))
             = Inr \<lparr>us = 79.999, sy = 0, idl = 20.001, wa = 0, usage = 79.999\<rparr>"
    by code_simp
  have b: "fst (poll_sample (cfg1 False) (world_up ''80 0 20 0'' []) (make_client host1))
             = Inr \<lparr>us = 80, sy = 0, idl = 20, wa = 0, usage = 80\<rparr>"
    by code_simp
  have c: "\<not> emit_only_above (cfg1 False)" "threshold (cfg1 False) = 80"
    by (simp_all add: cfg1_def)
  have "snd (snd (poll_one (cfg1 False) (world_up ''79.999 0 20.001 0'' [])
                    (prepare_clients Map.empty [host1]) host1))
          = [success_event (utcnow (world_up ''79.999 0 20.001 0'' [])) (h_host host1)
               \<lparr>us = 79.999, sy = 0, idl = 20.001, wa = 0, usage = 79.999\<rparr> 80 False]"
    using poll_one_on_success
            [of "prepare_clients Map.empty [host1]" host1 "make_client host1" "cfg1 False"
                "world_up ''79.999 0 20.001 0'' []"
                "\<lparr>us = 79.999, sy = 0, idl = 20.001, wa = 0, usage = 79.999\<rparr>"]
          prepared_host1 a c
    by simp
  moreover
  have "snd (snd (poll_one (cfg1 False) (world_up ''80 0 20 0'' [])
                    (prepare_clients Map.empty [host1]) host1))
          = [success_event (utcnow (world_up ''80 0 20 0'' [])) (h_host host1)
               \<lparr>us = 80, sy = 0, idl = 20, wa = 0, usage = 80\<rparr> 80 True]"
    using poll_one_on_success
            [of "prepare_clients Map.empty [host1]" host1 "make_client host1" "cfg1 False"
                "world_up ''80 0 20 0'' []"
                "\<lparr>us = 80, sy = 0, idl = 20, wa = 0, usage = 80\<rparr>"]
          prepared_host1 b c
    by simp
  ultimately show ?thesis
    using a
    by (simp add: cpu_percent_success threshold_field_success crossed_field_success
        round2_examples)
qed

subsection \<open>The scheduler\<close>

text \<open>
  What leaves a poll task, and so the join, is never an exception of a class deriving
  from \<^verbatim>\<open>Exception\<close> once every host of the list has its session, as it has after the
  preparation of the clients.
\<close>

lemma poll_one_raises_only:
  "fst (poll_one cfg w clients h) = Inl e \<Longrightarrow> clients (h_host h) = None \<or> \<not> is_Exception e"
  by (auto simp: poll_one_def split: option.splits prod.splits sum.splits if_splits)

lemma poll_one_dom: "dom (fst (snd (poll_one cfg w clients h))) = dom clients"
  by (auto simp: poll_one_def split: option.splits prod.splits sum.splits if_splits)

lemma gather_raises_only:
  "\<forall>h \<in> set hs. h_host h \<in> dom clients \<Longrightarrow> fst (gather cfg ws clients hs) = Inl e
     \<Longrightarrow> \<not> is_Exception e"
proof (induction hs arbitrary: clients)
  case Nil
  then show ?case by simp
next
  case (Cons h hs)
  obtain r c1 ev1 where p: "poll_one cfg (ws (h_host h)) clients h = (r, c1, ev1)"
    by (cases "poll_one cfg (ws (h_host h)) clients h") auto
  obtain r' c2 ev2 where g: "gather cfg ws c1 hs = (r', c2, ev2)"
    by (cases "gather cfg ws c1 hs") auto
  have d: "dom c1 = dom clients"
    using poll_one_dom [of cfg "ws (h_host h)" clients h] p by simp
  show ?case
  proof (cases r)
    case (Inl e')
    with Cons.prems p g have "e' = e" by simp
    moreover have "clients (h_host h) \<noteq> None" using Cons.prems(1) by auto
    ultimately show ?thesis
      using poll_one_raises_only [of cfg "ws (h_host h)" clients h e'] p Inl by auto
  next
    case (Inr u)
    with Cons.prems p g have "fst (gather cfg ws c1 hs) = Inl e" by simp
    moreover have "\<forall>h \<in> set hs. h_host h \<in> dom c1" using Cons.prems(1) d by simp
    ultimately show ?thesis using Cons.IH by blast
  qed
qed

lemma prepare_clients_dom: "dom (prepare_clients m hs) = dom m \<union> h_host ` set hs"
  by (induction hs arbitrary: m) auto

text \<open>
  Claim C8. In a turn of the loop in which the join of the host tasks returns, the
  scheduler sleeps for \<open>max 0 (interval - elapsed)\<close>, where \<open>elapsed\<close> is the time since the
  start of the turn; when the elapsed time is at least the interval, it sleeps for zero.
\<close>

theorem tick_sleep:
  assumes "fst (gather cfg ws clients (hosts cfg)) = Inr ()"
  shows "fst (tick cfg ws start finish clients)
           = Inr (max 0 (real_of_int (interval cfg) - (finish - start)))
       \<and> (real_of_int (interval cfg) \<le> finish - start
            \<longrightarrow> fst (tick cfg ws start finish clients) = Inr 0)"
  using assms
  by (cases "gather cfg ws clients (hosts cfg)") (auto simp: tick_def Let_def)

theorem tick_sleep_witness:
  "fst (gather (cfg1 False) (\<lambda>n. world_up ''12 3 80 5'' [])
          (prepare_clients Map.empty [host1]) (hosts (cfg1 False))) = Inr ()
   \<and> fst (tick (cfg1 False) (\<lambda>n. world_up ''12 3 80 5'' []) 100 103
            (prepare_clients Map.empty [host1])) = Inr 7
   \<and> fst (tick (cfg1 False) (\<lambda>n. world_up ''12 3 80 5'' []) 100 112
            (prepare_clients Map.empty [host1])) = Inr 0"
proof -
  have g: "fst (gather (cfg1 False) (\<lambda>n. world_up ''12 3 80 5'' [])
                  (prepare_clients Map.empty [host1]) (hosts (cfg1 False))) = Inr ()"
    by code_simp
  have i: "interval (cfg1 False) = 10"
    by (simp add: cfg1_def)
  from tick_sleep [OF g, of 100 103] tick_sleep [OF g, of 100 112] g i
  show ?thesis by simp
qed

subsection \<open>Reconnecting\<close>

lemma failed_connect_keeps_handle:
  "client s = None \<Longrightarrow> fst (connect w s) = Inl e
     \<Longrightarrow> client (fst (snd (connect w s))) = Some (SSHClient False)"
  by (auto simp: connect_def Let_def split: prod.splits sum.splits option.splits)

lemma run_with_handle_never_connects:
  "client s = Some h \<Longrightarrow> snd (snd (run w s cmd)) = [Exec h cmd (timeout s)]"
  by (auto simp: run_def Let_def split: sum.splits prod.splits)

text \<open>
  Claim C5, on the code. A first \<open>run\<close> against an unreachable host fails in the
  transport's connect and leaves the session with the handle that was created before
  the connect. A second \<open>run\<close>, now that the host answers, finds that handle, makes no
  connect call, runs the command on the handle without transport and fails; a session
  that had no handle would have connected and returned the output.
\<close>

theorem failed_connect_is_not_retried:
  "fst (run world_down (make_client host1) ''vmstat 1 2 | tail -1'') = Inl unreachable
   \<and> client (fst (snd (run world_down (make_client host1) ''vmstat 1 2 | tail -1'')))
       = Some (SSHClient False)
   \<and> run (world_up ''12 3 80 5'' [])
         (fst (snd (run world_down (make_client host1) ''vmstat 1 2 | tail -1'')))
         ''vmstat 1 2 | tail -1''
       = (Inl no_transport,
          fst (snd (run world_down (make_client host1) ''vmstat 1 2 | tail -1'')),
          [Exec (SSHClient False) ''vmstat 1 2 | tail -1'' 10])
   \<and> run (world_up ''12 3 80 5'' []) (make_client host1) ''vmstat 1 2 | tail -1''
       = (Inr ''12 3 80 5'', (make_client host1)\<lparr>client := Some (SSHClient True)\<rparr>,
          [New_SSHClient,
           Connect (connect_call (make_client host1) None),
           Exec (SSHClient True) ''vmstat 1 2 | tail -1'' 10])"
  by (simp add: run_def connect_def load_pkey_def make_client_def SSHClient_init_def host1_def
      world_down_def world_up_def connect_call_def utf8_ignore_examples Let_def)

subsection \<open>Authentication\<close>

lemma load_pkey_cases:
  assumes "load_pkey w kp = (Inr pk, cs)"
  shows "(\<forall>p. kp = Some p \<and> p \<noteq> [] \<longrightarrow>
            (load_rsa w p = None \<longrightarrow> pk = Some (RSAKey p) \<and> cs = [Load_RSA p])
          \<and> (load_rsa w p \<noteq> None \<longrightarrow>
                cs = [Load_RSA p, Load_ECDSA p]
              \<and> pk = (if load_ecdsa w p = None then Some (ECDSAKey p) else None)))
       \<and> (kp = None \<or> kp = Some [] \<longrightarrow> pk = None \<and> cs = [])"
  using assms
  by (auto simp: load_pkey_def split: option.splits if_splits)

text \<open>
  Claim C7, as the code has it. A first connect of a session whose key loading does not
  escape makes one transport connect and returns what that call answers. With a key
  path that is not empty it tries RSA and, when that raises, ECDSA; the key that loads is
  presented, and then no password is; the password, if any, is presented exactly when no
  key has loaded or no key path was given.
\<close>

theorem connect_authentication:
  assumes "client s = None" and "load_pkey w (key_path s) = (Inr pk, cs)"
  shows "snd (snd (connect w s)) = New_SSHClient # cs @ [Connect (connect_call s pk)]
       \<and> fst (connect w s)
           = (case ssh_connect w (connect_call s pk) of None \<Rightarrow> Inr () | Some e \<Rightarrow> Inl e)
       \<and> arg_pkey (connect_call s pk) = pk
       \<and> arg_password (connect_call s pk) = (if pk = None then password s else None)
       \<and> (\<forall>p. key_path s = Some p \<and> p \<noteq> [] \<longrightarrow>
            (load_rsa w p = None \<longrightarrow> pk = Some (RSAKey p) \<and> cs = [Load_RSA p])
          \<and> (load_rsa w p \<noteq> None \<longrightarrow>
                cs = [Load_RSA p, Load_ECDSA p]
              \<and> pk = (if load_ecdsa w p = None then Some (ECDSAKey p) else None)))
       \<and> (key_path s = None \<or> key_path s = Some [] \<longrightarrow> pk = None \<and> cs = [])"
proof -
  have "snd (snd (connect w s)) = New_SSHClient # cs @ [Connect (connect_call s pk)]"
    using assms by (simp add: connect_def Let_def split: option.splits)
  moreover
  have "fst (connect w s)
          = (case ssh_connect w (connect_call s pk) of None \<Rightarrow> Inr () | Some e \<Rightarrow> Inl e)"
    using assms by (simp add: connect_def Let_def split: option.splits)
  moreover
  have "arg_pkey (connect_call s pk) = pk"
       "arg_password (connect_call s pk) = (if pk = None then password s else None)"
    by (simp_all add: connect_call_def)
  ultimately show ?thesis
    using load_pkey_cases [OF assms(2)] by blast
qed

theorem connect_authentication_witness:
  "client (make_client host1_key_pw) = None
   \<and> load_pkey world_bad_key (key_path (make_client host1_key_pw))
       = (Inr None, [Load_RSA ''/home/user/.ssh/id_rsa'', Load_ECDSA ''/home/user/.ssh/id_rsa''])
   \<and> fst (connect world_bad_key (make_client host1_key_pw)) = Inr ()
   \<and> arg_password (connect_call (make_client host1_key_pw) None) = Some ''pw''"
proof -
  have a: "client (make_client host1_key_pw) = None"
    by (simp add: make_client_def SSHClient_init_def)
  have b: "load_pkey world_bad_key (key_path (make_client host1_key_pw))
             = (Inr None,
                [Load_RSA ''/home/user/.ssh/id_rsa'', Load_ECDSA ''/home/user/.ssh/id_rsa''])"
    by (simp add: load_pkey_def make_client_def SSHClient_init_def host1_key_pw_def host1_def
        world_bad_key_def world_up_def bad_key_def)
  have c: "ssh_connect world_bad_key (connect_call (make_client host1_key_pw) None) = None"
    by (simp add: world_bad_key_def world_up_def)
  have d: "password (make_client host1_key_pw) = Some ''pw''"
    by (simp add: make_client_def SSHClient_init_def host1_key_pw_def host1_def)
  from connect_authentication [OF a b] a b c d
  show ?thesis by simp
qed

text \<open>
  Claim C7 as stated fails where the key loads and the host rejects it: the session has
  a password the host would accept, and the connect fails without presenting it. It
  fails too where there is neither key nor password and the transport still
  authenticates, as it may through the agent that the call allows.
\<close>

theorem key_rejected_no_password_fallback:
  "key_path (make_client host1_key_pw) = Some ''/home/user/.ssh/id_rsa''
   \<and> password (make_client host1_key_pw) = Some ''pw''
   \<and> ssh_connect world_key_rejected (connect_call (make_client host1_key_pw) None) = None
   \<and> connect world_key_rejected (make_client host1_key_pw)
       = (Inl auth_failed, (make_client host1_key_pw)\<lparr>client := Some (SSHClient False)\<rparr>,
          [New_SSHClient, Load_RSA ''/home/user/.ssh/id_rsa'',
           Connect (connect_call (make_client host1_key_pw)
                      (Some (RSAKey ''/home/user/.ssh/id_rsa'')))])
   \<and> arg_password (connect_call (make_client host1_key_pw)
                      (Some (RSAKey ''/home/user/.ssh/id_rsa''))) = None
   \<and> key_path (make_client host1) = None \<and> password (make_client host1) = None
   \<and> fst (connect (world_up [] []) (make_client host1)) = Inr ()"
  by (simp add: connect_def load_pkey_def make_client_def SSHClient_init_def host1_def
      host1_key_pw_def world_key_rejected_def world_up_def connect_call_def)

subsection \<open>The sampler\<close>

text \<open>
  On a line without superscript digits the filter keeps exactly the tokens that are
  decimal numbers, and the sampler returns the last four of them with their sum, or
  raises when there are fewer than four.
\<close>

lemma split_from_chars:
  "t \<in> set (split_from cur s) \<Longrightarrow> set t \<subseteq> set cur \<union> set s"
proof (induction s arbitrary: cur)
  case Nil
  then show ?case by (simp split: if_splits)
next
  case (Cons a s)
  show ?case
  proof (cases "isspace_chr a")
    case True
    with Cons.prems have "t = cur \<or> t \<in> set (split_from [] s)"
      by (auto split: if_splits)
    then show ?thesis
      using Cons.IH [of "[]"] by auto
  next
    case False
    with Cons.prems have "t \<in> set (split_from (cur @ [a]) s)" by simp
    then show ?thesis
      using Cons.IH [of "cur @ [a]"] by auto
  qed
qed

lemma strip_chars: "set (strip s) \<subseteq> set s"
  unfolding strip_def
  by (metis (no_types) set_dropWhileD set_rev subsetI)

lemma token_chars: "t \<in> set (split (strip line)) \<Longrightarrow> set t \<subseteq> set line"
  using split_from_chars [of t "[]" "strip line"] strip_chars [of line]
  by (auto simp: split_def)

lemma numeric_tok_decimal:
  assumes "\<forall>c \<in> set t. c \<notin> set [CHR 0xB2, CHR 0xB3, CHR 0xB9]"
  shows "numeric_tok t = decimal_number t"
proof -
  have "set (remove1 (CHR ''.'') t) \<subseteq> set t"
    by (rule set_remove1_subset)
  with assms have "\<forall>c \<in> set (remove1 (CHR ''.'') t). isdigit_chr c = isdecimal_chr c"
    by (auto simp: isdigit_chr_def)
  then have "list_all isdigit_chr (remove1 (CHR ''.'') t)
               = list_all isdecimal_chr (remove1 (CHR ''.'') t)"
    by (auto simp: list_all_iff)
  then show ?thesis
    by (simp add: numeric_tok_def decimal_number_def isdigit_def Let_def)
qed

lemma map_float_decimal:
  "\<forall>t \<in> set ts. decimal_number t \<Longrightarrow> map_float ts = Inr (map decimal_value ts)"
  by (induction ts) (auto simp: float_of_str_def decimal_number_def Let_def)

lemma int_of_digits_nonneg: "0 \<le> int_of_digits s"
proof -
  have "0 \<le> n \<Longrightarrow> 0 \<le> foldl (\<lambda>n c. 10 * n + int (digit_val c)) n s" for n
    by (induction s arbitrary: n) auto
  then show ?thesis by (simp add: int_of_digits_def)
qed

lemma decimal_value_nonneg: "0 \<le> decimal_value t"
  by (simp add: decimal_value_def Let_def int_of_digits_nonneg)

lemma length_four: "length xs = 4 \<Longrightarrow> \<exists>a b c d. xs = [a, b, c, d]"
  by (auto simp: numeral_eq_Suc length_Suc_conv)

lemma sampler_on_decimal_digits:
  assumes "\<forall>c \<in> set line. c \<notin> set [CHR 0xB2, CHR 0xB3, CHR 0xB9]"
  shows "(length (filter decimal_number (split (strip line))) < 4 \<longrightarrow>
            compute_cpu_usage_from_vmstat line
              = Inl (Exn ValueError (''Unexpected vmstat output: '' @ repr line)))
       \<and> (4 \<le> length (filter decimal_number (split (strip line))) \<longrightarrow>
            (\<exists>a b c d.
               drop (length (filter decimal_number (split (strip line))) - 4)
                 (filter decimal_number (split (strip line))) = [a, b, c, d]
             \<and> compute_cpu_usage_from_vmstat line
                 = Inr \<lparr>us = decimal_value a, sy = decimal_value b, idl = decimal_value c,
                        wa = decimal_value d,
                        usage = decimal_value a + decimal_value b + decimal_value d\<rparr>
             \<and> 0 \<le> decimal_value a \<and> 0 \<le> decimal_value b \<and> 0 \<le> decimal_value c
             \<and> 0 \<le> decimal_value d))"
proof -
  let ?all = "split (strip line)"
  let ?toks = "filter decimal_number ?all"
  have same: "filter numeric_tok ?all = ?toks"
  proof (rule filter_cong [OF refl])
    fix t assume "t \<in> set ?all"
    then have "set t \<subseteq> set line" by (rule token_chars)
    with assms have "\<forall>c \<in> set t. c \<notin> set [CHR 0xB2, CHR 0xB3, CHR 0xB9]" by blast
    then show "numeric_tok t = decimal_number t" by (rule numeric_tok_decimal)
  qed
  have short: "compute_cpu_usage_from_vmstat line
                 = Inl (Exn ValueError (''Unexpected vmstat output: '' @ repr line))"
    if "length ?toks < 4"
    using that by (simp add: compute_cpu_usage_from_vmstat_def same Let_def)
  have long: "\<exists>a b c d.
               drop (length ?toks - 4) ?toks = [a, b, c, d]
             \<and> compute_cpu_usage_from_vmstat line
                 = Inr \<lparr>us = decimal_value a, sy = decimal_value b, idl = decimal_value c,
                        wa = decimal_value d,
                        usage = decimal_value a + decimal_value b + decimal_value d\<rparr>"
    if ge: "4 \<le> length ?toks"
  proof -
    let ?last = "drop (length ?toks - 4) ?toks"
    have "\<forall>t \<in> set ?last. decimal_number t"
      using set_drop_subset [of "length ?toks - 4" ?toks] by auto
    then have mf: "map_float ?last = Inr (map decimal_value ?last)"
      by (rule map_float_decimal)
    have "length ?last = 4" using ge by simp
    then obtain a b c d where el: "?last = [a, b, c, d]"
      using length_four [of ?last] by blast
    have mf': "map_float [a, b, c, d]
                 = Inr [decimal_value a, decimal_value b, decimal_value c, decimal_value d]"
      using mf by (simp only: el list.map)
    have "compute_cpu_usage_from_vmstat line
            = (case map_float ?last of
                 Inl e \<Rightarrow> Inl e
               | Inr [a, b, c, d] \<Rightarrow>
                   Inr \<lparr>us = a, sy = b, idl = c, wa = d, usage = a + b + d\<rparr>
               | Inr xs \<Rightarrow>
                   Inl (Exn ValueError ''not enough values to unpack (expected 4)''))"
      using ge by (simp add: compute_cpu_usage_from_vmstat_def same Let_def)
    also have "\<dots> = Inr \<lparr>us = decimal_value a, sy = decimal_value b, idl = decimal_value c,
                        wa = decimal_value d,
                        usage = decimal_value a + decimal_value b + decimal_value d\<rparr>"
      by (simp only: el mf') simp
    finally show ?thesis using el by blast
  qed
  show ?thesis
    using short long decimal_value_nonneg by blast
qed

text \<open>
  Claim C2, on the code. The line \<open>1 2 3 4\<close> followed by a superscript two has four
  tokens that are decimal numbers. The filter keeps the superscript as a fifth token,
  the last four are passed to \<^verbatim>\<open>float\<close>, and the conversion of the superscript raises.
\<close>

theorem superscript_digit_breaks_sampler:
  "filter decimal_number (split (strip (''1 2 3 4 '' @ [CHR 0xB2]))) = [''1'', ''2'', ''3'', ''4'']
   \<and> filter numeric_tok (split (strip (''1 2 3 4 '' @ [CHR 0xB2])))
       = [''1'', ''2'', ''3'', ''4'', [CHR 0xB2]]
   \<and> float_of_str [CHR 0xB2]
       = Inl (Exn ValueError
                (''could not convert string to float: '' @ [CHR 0x27, CHR 0xB2, CHR 0x27]))
   \<and> compute_cpu_usage_from_vmstat (''1 2 3 4 '' @ [CHR 0xB2])
       = Inl (Exn ValueError
                (''could not convert string to float: '' @ [CHR 0x27, CHR 0xB2, CHR 0x27]))"
  by code_simp

end
